theory Spec2Isabelle
  imports Main "HOL-Library.Word" "HOL-Library.Multiset"
begin

section \<open>The database manager of estuary (dbmgr.go)\<close>

text \<open>
  The file \<^verbatim>\<open>dbmgr.go\<close> wraps two libraries: \<^verbatim>\<open>go-cid\<close> (content identifiers and
  their binary form) and \<^verbatim>\<open>gorm\<close> (statements against a relational store). Neither
  library is part of the repository. The identifier library is taken as a parameter
  (a record of its three entry points) with its documented contract stated as a
  predicate; the store is modelled as tables of rows on which a statement either
  reports an error and changes nothing, or runs.

  A Go function returning \<^verbatim>\<open>(T, error)\<close> is a function into a pair
  \<open>T \<times> error option\<close>, \<open>None\<close> being \<^verbatim>\<open>nil\<close>; a \<^verbatim>\<open>nil\<close> slice is the empty list.
\<close>

type_synonym byte = "8 word"
type_synonym bytes = "byte list"

datatype error =
    ErrRecordNotFound
  | ErrMissingWhereClause
  | ErrInvalidCid
  | ErrDBStringFormat
  | ErrUnsupportedDBType string
  | StorageEngineError string

subsection \<open>The identifier library, as a parameter\<close>

text \<open>
  \<^verbatim>\<open>gocid.Undef\<close>, \<^verbatim>\<open>gocid.Cast\<close> and the method \<^verbatim>\<open>Cid.Bytes\<close>. The type \<open>'c\<close> stands
  for \<^verbatim>\<open>gocid.Cid\<close>.
\<close>

record 'c gocid =
  Undef :: 'c
  Cast :: "bytes \<Rightarrow> 'c \<times> error option"
  Bytes :: "'c \<Rightarrow> bytes"

text \<open>
  The contract of the library that the round trip rests on: the undefined identifier,
  and only it, has the empty binary form, and casting the binary form of a defined
  identifier gives that identifier back.
\<close>

definition gocid_contract :: "'c gocid \<Rightarrow> bool" where
  "gocid_contract L \<longleftrightarrow>
     (\<forall>c. (Bytes L c = []) = (c = Undef L)) \<and>
     (\<forall>c. c \<noteq> Undef L \<longrightarrow> Cast L (Bytes L c) = (c, None))"

subsection \<open>Helper functions (dbmgr.go, lines 431 to 470)\<close>

definition bytesToCid :: "'c gocid \<Rightarrow> bytes \<Rightarrow> 'c \<times> error option" where
  "bytesToCid L bs =
     (if length bs = 0 then (Undef L, None)
      else (case Cast L bs of
              (cid, Some err) \<Rightarrow> (Undef L, Some err)
            | (cid, None) \<Rightarrow> (cid, None)))"

text \<open>
  The loop of \<^verbatim>\<open>bytesToCids\<close>, with the slice \<^verbatim>\<open>cids\<close> built so far as accumulator.
  On the first error the function returns \<^verbatim>\<open>nil, err\<close>.
\<close>

fun bytesToCids_loop :: "'c gocid \<Rightarrow> bytes list \<Rightarrow> 'c list \<Rightarrow> 'c list \<times> error option" where
  "bytesToCids_loop L [] cids = (cids, None)"
| "bytesToCids_loop L (bs # rest) cids =
     (case bytesToCid L bs of
        (cid, Some err) \<Rightarrow> ([], Some err)
      | (cid, None) \<Rightarrow> bytesToCids_loop L rest (cids @ [cid]))"

definition bytesToCids :: "'c gocid \<Rightarrow> bytes list \<Rightarrow> 'c list \<times> error option" where
  "bytesToCids L bytesList = bytesToCids_loop L bytesList []"

definition cidToBytes :: "'c gocid \<Rightarrow> 'c \<Rightarrow> bytes" where
  "cidToBytes L cid = Bytes L cid"

fun cidsToBytes_loop :: "'c gocid \<Rightarrow> 'c list \<Rightarrow> bytes list \<Rightarrow> bytes list" where
  "cidsToBytes_loop L [] bytesList = bytesList"
| "cidsToBytes_loop L (cid # rest) bytesList =
     cidsToBytes_loop L rest (bytesList @ [cidToBytes L cid])"

definition cidsToBytes :: "'c gocid \<Rightarrow> 'c list \<Rightarrow> bytes list" where
  "cidsToBytes L cids = cidsToBytes_loop L cids []"

subsection \<open>An instance of the identifier library\<close>

text \<open>
  One library that meets the contract, used to run the helper functions on concrete
  inputs. Its identifiers are byte strings in a CID layout: version 0 is a 34-byte
  multihash starting \<open>0x12 0x20\<close>; version 1 is the byte 1, a codec, a hash code and a
  digest length (each below \<open>0x80\<close>, one-byte varints) and a digest of that length.
  As in go-cid, an identifier is its binary form, and the undefined identifier is the
  empty string.
\<close>

fun wellformed_cid :: "bytes \<Rightarrow> bool" where
  "wellformed_cid (v # codec # code # len # digest) =
     ((v = 0x12 \<and> codec = 0x20 \<and> length digest = 30) \<or>
      (v = 1 \<and> codec < 0x80 \<and> code < 0x80 \<and> len < 0x80 \<and> length digest = unat len))"
| "wellformed_cid _ = False"

typedef sample_cid = "{bs :: bytes. bs = [] \<or> wellformed_cid bs}"
  by auto

definition sample_gocid :: "sample_cid gocid" where
  "sample_gocid =
     \<lparr> Undef = Abs_sample_cid [],
       Cast = (\<lambda>bs. if wellformed_cid bs then (Abs_sample_cid bs, None)
                    else (Abs_sample_cid [], Some ErrInvalidCid)),
       Bytes = Rep_sample_cid \<rparr>"


section \<open>The store\<close>

subsection \<open>Rows and tables\<close>

text \<open>
  Modelled from the spec: the struct declarations \<^verbatim>\<open>User\<close>, \<^verbatim>\<open>Content\<close>,
  \<^verbatim>\<open>Object\<close>, \<^verbatim>\<open>ObjRef\<close>, \<^verbatim>\<open>contentDeal\<close> and \<^verbatim>\<open>storageMiner\<close> are not in
  dbmgr.go. A row carries its id and the columns that the statements of dbmgr.go name
  (section 3 of the spec lists them). Go's \<^verbatim>\<open>uint\<close> ids are compared for equality
  only and are natural numbers here; \<^verbatim>\<open>created_at\<close> is a point in time, an integer;
  a \<^verbatim>\<open>cid\<close> column holds the binary form of an identifier. No uniqueness or
  foreign-key constraint is modelled: dbmgr.go declares none.
\<close>

record User =
  User_ID :: nat
  User_Username :: string

record Content =
  Content_ID :: nat
  Content_Cid :: bytes
  Content_UserID :: nat
  Content_Active :: bool
  Content_Aggregate :: bool
  Content_AggregatedIn :: nat
  Content_CreatedAt :: int

record Object =
  Object_ID :: nat
  Object_Cid :: bytes

record ObjRef =
  ObjRef_ID :: nat
  ObjRef_Object :: nat
  ObjRef_Pin :: nat

record contentDeal =
  contentDeal_ID :: nat
  contentDeal_Content :: nat

type_synonym address = string

record storageMiner =
  Address :: address

text \<open>
  The state of the store: one list of rows per table, in storage order, and the
  outcomes that the engine will report for the coming statements, in order (\<open>None\<close>:
  the statement runs; past the end of the list every statement runs).
\<close>

record DB =
  users :: "User list"
  contents :: "Content list"
  objects :: "Object list"
  obj_refs :: "ObjRef list"
  content_deals :: "contentDeal list"
  storage_miners :: "storageMiner list"
  faults :: "error option list"

definition engine_step :: "DB \<Rightarrow> error option \<times> DB" where
  "engine_step db =
     (case faults db of
        [] \<Rightarrow> (None, db)
      | f # fs \<Rightarrow> (f, db\<lparr>faults := fs\<rparr>))"

subsection \<open>Statements\<close>

text \<open>
  What gorm hands back from a statement: the fields \<^verbatim>\<open>Error\<close> and \<^verbatim>\<open>RowsAffected\<close>
  of the returned handle.
\<close>

record gorm_result =
  Error :: "error option"
  RowsAffected :: int

text \<open>
  \<^verbatim>\<open>Count\<close>: the number of rows that satisfy the conditions; on an error the counter
  keeps its zero value.
\<close>

definition gorm_Count :: "('r \<Rightarrow> bool) \<Rightarrow> 'r list \<Rightarrow> DB \<Rightarrow> (int \<times> gorm_result) \<times> DB" where
  "gorm_Count p rows db =
     (case engine_step db of
        (Some err, db') \<Rightarrow> ((0, \<lparr>Error = Some err, RowsAffected = 0\<rparr>), db')
      | (None, db') \<Rightarrow>
          ((int (length (filter p rows)), \<lparr>Error = None, RowsAffected = 0\<rparr>), db'))"

text \<open>
  \<^verbatim>\<open>Find\<close>: the rows that satisfy the conditions, ordered; zero rows is not an error.
\<close>

definition gorm_Find ::
  "('r \<Rightarrow> bool) \<Rightarrow> ('r list \<Rightarrow> 'r list) \<Rightarrow> 'r list \<Rightarrow> DB \<Rightarrow> ('r list \<times> gorm_result) \<times> DB" where
  "gorm_Find p ord rows db =
     (case engine_step db of
        (Some err, db') \<Rightarrow> (([], \<lparr>Error = Some err, RowsAffected = 0\<rparr>), db')
      | (None, db') \<Rightarrow>
          (let found = ord (filter p rows)
           in ((found, \<lparr>Error = None, RowsAffected = int (length found)\<rparr>), db')))"

text \<open>
  \<^verbatim>\<open>Delete\<close>: gorm refuses a delete without any condition (\<^verbatim>\<open>ErrMissingWhereClause\<close>)
  before it reaches the engine; otherwise the rows that satisfy the conditions go, and
  \<^verbatim>\<open>RowsAffected\<close> is their number. The first component of the result pairs the
  handle's fields with the table after the statement.
\<close>

definition gorm_Delete ::
  "bool \<Rightarrow> ('r \<Rightarrow> bool) \<Rightarrow> 'r list \<Rightarrow> DB \<Rightarrow> (gorm_result \<times> 'r list) \<times> DB" where
  "gorm_Delete has_where p rows db =
     (if \<not> has_where
      then ((\<lparr>Error = Some ErrMissingWhereClause, RowsAffected = 0\<rparr>, rows), db)
      else (case engine_step db of
              (Some err, db') \<Rightarrow> ((\<lparr>Error = Some err, RowsAffected = 0\<rparr>, rows), db')
            | (None, db') \<Rightarrow>
                ((\<lparr>Error = None, RowsAffected = int (length (filter p rows))\<rparr>,
                  filter (\<lambda>r. \<not> p r) rows), db')))"

text \<open>\<^verbatim>\<open>Create\<close> of one row: the row is appended to its table.\<close>

definition gorm_Create :: "'r \<Rightarrow> 'r list \<Rightarrow> DB \<Rightarrow> (gorm_result \<times> 'r list) \<times> DB" where
  "gorm_Create r rows db =
     (case engine_step db of
        (Some err, db') \<Rightarrow> ((\<lparr>Error = Some err, RowsAffected = 0\<rparr>, rows), db')
      | (None, db') \<Rightarrow> ((\<lparr>Error = None, RowsAffected = 1\<rparr>, rows @ [r]), db'))"


section \<open>Query builders and terminal operations\<close>

text \<open>
  A query type of dbmgr.go holds a gorm handle; each \<^verbatim>\<open>With...\<close> method adds one
  \<^verbatim>\<open>Where\<close> clause to it and returns the query. Here a query is the list of its
  clauses in the order declared (and, for contents, the \<^verbatim>\<open>Order\<close> clauses); a clause
  is a constructor named after its SQL text, and \<open>..._holds\<close> gives its meaning on a
  row. Clauses are combined by AND. A terminal operation takes the store and returns
  its result with the store after the statement. The \<^verbatim>\<open>With...\<close> methods change the
  handle of the query in place and return the query; a query value here is the state
  of that handle at the moment a terminal operation is called. \<^verbatim>\<open>Limit\<close> and
  \<^verbatim>\<open>Offset\<close> are left out.
\<close>

type_synonym DBSortOrder = int

definition OrderDescending :: DBSortOrder where
  "OrderDescending = 0"

definition OrderAscending :: DBSortOrder where
  "OrderAscending = 1"

subsection \<open>Users\<close>

datatype users_cond =
    users_username_eq string
  | users_id_eq nat

fun users_holds :: "users_cond \<Rightarrow> User \<Rightarrow> bool" where
  "users_holds (users_username_eq username) u = (User_Username u = username)"
| "users_holds (users_id_eq ident) u = (User_ID u = ident)"

type_synonym UsersQuery = "users_cond list"

definition users_match :: "UsersQuery \<Rightarrow> User \<Rightarrow> bool" where
  "users_match q u = list_all (\<lambda>c. users_holds c u) q"

definition NewUsersQuery :: UsersQuery where
  "NewUsersQuery = []"

definition UsersQuery_WithUsername :: "UsersQuery \<Rightarrow> string \<Rightarrow> UsersQuery" where
  "UsersQuery_WithUsername q username = q @ [users_username_eq username]"

definition UsersQuery_WithID :: "UsersQuery \<Rightarrow> nat \<Rightarrow> UsersQuery" where
  "UsersQuery_WithID q ident = q @ [users_id_eq ident]"

definition UsersQuery_Count :: "UsersQuery \<Rightarrow> DB \<Rightarrow> (int \<times> error option) \<times> DB" where
  "UsersQuery_Count q db =
     (case gorm_Count (users_match q) (users db) db of
        ((cnt, res), db') \<Rightarrow>
          (case Error res of
             Some err \<Rightarrow> ((0, Some err), db')
           | None \<Rightarrow> ((cnt, None), db')))"

definition UsersQuery_Exists :: "UsersQuery \<Rightarrow> DB \<Rightarrow> (bool \<times> error option) \<times> DB" where
  "UsersQuery_Exists q db =
     (case UsersQuery_Count q db of
        ((cnt, Some err), db') \<Rightarrow> ((False, Some err), db')
      | ((cnt, None), db') \<Rightarrow> ((cnt > 0, None), db'))"

definition UsersQuery_ExpectDelete :: "UsersQuery \<Rightarrow> DB \<Rightarrow> error option \<times> DB" where
  "UsersQuery_ExpectDelete q db =
     (case gorm_Delete (q \<noteq> []) (users_match q) (users db) db of
        ((res, rows'), db') \<Rightarrow>
          (case Error res of
             Some err \<Rightarrow> (Some err, db'\<lparr>users := rows'\<rparr>)
           | None \<Rightarrow>
               if RowsAffected res = 0
               then (Some ErrRecordNotFound, db'\<lparr>users := rows'\<rparr>)
               else (None, db'\<lparr>users := rows'\<rparr>)))"

subsection \<open>Contents\<close>

datatype contents_cond =
    contents_id_eq nat
  | contents_active
  | contents_NOT_active
  | contents_user_id_eq nat
  | contents_cid_eq bytes
  | contents_cid_IN "bytes list"
  | contents_aggregate
  | contents_NOT_aggregate
  | contents_aggregated_in_eq nat

fun contents_holds :: "contents_cond \<Rightarrow> Content \<Rightarrow> bool" where
  "contents_holds (contents_id_eq ident) c = (Content_ID c = ident)"
| "contents_holds contents_active c = Content_Active c"
| "contents_holds contents_NOT_active c = (\<not> Content_Active c)"
| "contents_holds (contents_user_id_eq userID) c = (Content_UserID c = userID)"
| "contents_holds (contents_cid_eq b) c = (Content_Cid c = b)"
| "contents_holds (contents_cid_IN bl) c = (Content_Cid c \<in> set bl)"
| "contents_holds contents_aggregate c = Content_Aggregate c"
| "contents_holds contents_NOT_aggregate c = (\<not> Content_Aggregate c)"
| "contents_holds (contents_aggregated_in_eq contentID) c = (Content_AggregatedIn c = contentID)"

datatype contents_order =
    created_at_DESC
  | created_at_ASC
  | id_DESC
  | id_ASC

text \<open>
  The sort key of an \<^verbatim>\<open>Order\<close> clause; descending order is ascending order of the
  negated key. Several clauses order by the first, then the second, and so on: the
  rows are sorted by the last clause first, each sort keeping the order of rows with
  equal keys, and rows equal under every clause stay in storage order.
\<close>

fun contents_order_key :: "contents_order \<Rightarrow> Content \<Rightarrow> int" where
  "contents_order_key created_at_DESC c = - Content_CreatedAt c"
| "contents_order_key created_at_ASC c = Content_CreatedAt c"
| "contents_order_key id_DESC c = - int (Content_ID c)"
| "contents_order_key id_ASC c = int (Content_ID c)"

definition contents_sort :: "contents_order list \<Rightarrow> Content list \<Rightarrow> Content list" where
  "contents_sort os rows = foldr (\<lambda>ord rs. sort_key (contents_order_key ord) rs) os rows"

record ContentsQuery =
  contents_Where :: "contents_cond list"
  contents_Order :: "contents_order list"

definition contents_match :: "ContentsQuery \<Rightarrow> Content \<Rightarrow> bool" where
  "contents_match q c = list_all (\<lambda>cond. contents_holds cond c) (contents_Where q)"

definition contents_add_Where :: "ContentsQuery \<Rightarrow> contents_cond \<Rightarrow> ContentsQuery" where
  "contents_add_Where q cond = q\<lparr>contents_Where := contents_Where q @ [cond]\<rparr>"

definition contents_add_Order :: "ContentsQuery \<Rightarrow> contents_order \<Rightarrow> ContentsQuery" where
  "contents_add_Order q ord = q\<lparr>contents_Order := contents_Order q @ [ord]\<rparr>"

definition NewContentsQuery :: ContentsQuery where
  "NewContentsQuery = \<lparr>contents_Where = [], contents_Order = []\<rparr>"

definition ContentsQuery_WithID :: "ContentsQuery \<Rightarrow> nat \<Rightarrow> ContentsQuery" where
  "ContentsQuery_WithID q ident = contents_add_Where q (contents_id_eq ident)"

definition ContentsQuery_WithActive :: "ContentsQuery \<Rightarrow> bool \<Rightarrow> ContentsQuery" where
  "ContentsQuery_WithActive q active =
     (if active then contents_add_Where q contents_active
      else contents_add_Where q contents_NOT_active)"

definition ContentsQuery_WithUserID :: "ContentsQuery \<Rightarrow> nat \<Rightarrow> ContentsQuery" where
  "ContentsQuery_WithUserID q userID = contents_add_Where q (contents_user_id_eq userID)"

definition ContentsQuery_WithCid :: "'c gocid \<Rightarrow> ContentsQuery \<Rightarrow> 'c \<Rightarrow> ContentsQuery" where
  "ContentsQuery_WithCid L q cid = contents_add_Where q (contents_cid_eq (cidToBytes L cid))"

definition ContentsQuery_WithCids :: "'c gocid \<Rightarrow> ContentsQuery \<Rightarrow> 'c list \<Rightarrow> ContentsQuery" where
  "ContentsQuery_WithCids L q cids = contents_add_Where q (contents_cid_IN (cidsToBytes L cids))"

definition ContentsQuery_WithAggregate :: "ContentsQuery \<Rightarrow> bool \<Rightarrow> ContentsQuery" where
  "ContentsQuery_WithAggregate q aggregate =
     (if aggregate then contents_add_Where q contents_aggregate
      else contents_add_Where q contents_NOT_aggregate)"

definition ContentsQuery_WithAggregatedIn :: "ContentsQuery \<Rightarrow> nat \<Rightarrow> ContentsQuery" where
  "ContentsQuery_WithAggregatedIn q contentID =
     contents_add_Where q (contents_aggregated_in_eq contentID)"

definition ContentsQuery_OrderByCreationDate :: "ContentsQuery \<Rightarrow> DBSortOrder \<Rightarrow> ContentsQuery" where
  "ContentsQuery_OrderByCreationDate q order =
     (if order = OrderDescending then contents_add_Order q created_at_DESC
      else contents_add_Order q created_at_ASC)"

definition ContentsQuery_OrderByID :: "ContentsQuery \<Rightarrow> DBSortOrder \<Rightarrow> ContentsQuery" where
  "ContentsQuery_OrderByID q order =
     (if order = OrderDescending then contents_add_Order q id_DESC
      else contents_add_Order q id_ASC)"

text \<open>Line 295: on an error of \<^verbatim>\<open>Find\<close> the function returns \<^verbatim>\<open>nil, nil\<close>.\<close>

definition ContentsQuery_GetAll :: "ContentsQuery \<Rightarrow> DB \<Rightarrow> (Content list \<times> error option) \<times> DB" where
  "ContentsQuery_GetAll q db =
     (case gorm_Find (contents_match q) (contents_sort (contents_Order q)) (contents db) db of
        ((found, res), db') \<Rightarrow>
          (case Error res of
             Some err \<Rightarrow> (([], None), db')
           | None \<Rightarrow> ((found, None), db')))"

definition ContentsQuery_Delete :: "ContentsQuery \<Rightarrow> DB \<Rightarrow> error option \<times> DB" where
  "ContentsQuery_Delete q db =
     (case gorm_Delete (contents_Where q \<noteq> []) (contents_match q) (contents db) db of
        ((res, rows'), db') \<Rightarrow> (Error res, db'\<lparr>contents := rows'\<rparr>))"


subsection \<open>Objects\<close>

text \<open>
  The second clause is the reference-count guard
  \<^verbatim>\<open>(SELECT count(1) FROM obj_refs WHERE object = objects.id) = 0 AND id in ?\<close> as it
  reads in a statement on objects whose sub-query is a statement of its own; its
  meaning depends on the table of references. No builder of dbmgr.go adds it.
\<close>

datatype objects_cond =
    objects_cid_eq bytes
  | objects_refcount_eq_0_AND_id_in "nat list"

fun objects_holds :: "ObjRef list \<Rightarrow> objects_cond \<Rightarrow> Object \<Rightarrow> bool" where
  "objects_holds refs (objects_cid_eq b) ob = (Object_Cid ob = b)"
| "objects_holds refs (objects_refcount_eq_0_AND_id_in ids) ob =
     (int (length (filter (\<lambda>r. ObjRef_Object r = Object_ID ob) refs)) = 0 \<and>
      Object_ID ob \<in> set ids)"

type_synonym ObjectsQuery = "objects_cond list"

definition objects_match :: "ObjRef list \<Rightarrow> ObjectsQuery \<Rightarrow> Object \<Rightarrow> bool" where
  "objects_match refs q ob = list_all (\<lambda>c. objects_holds refs c ob) q"

definition NewObjectsQuery :: ObjectsQuery where
  "NewObjectsQuery = []"

definition ObjectsQuery_WithCid :: "'c gocid \<Rightarrow> ObjectsQuery \<Rightarrow> 'c \<Rightarrow> ObjectsQuery" where
  "ObjectsQuery_WithCid L q cid = q @ [objects_cid_eq (cidToBytes L cid)]"

definition ObjectsQuery_Count :: "ObjectsQuery \<Rightarrow> DB \<Rightarrow> (int \<times> error option) \<times> DB" where
  "ObjectsQuery_Count q db =
     (case gorm_Count (objects_match (obj_refs db) q) (objects db) db of
        ((cnt, res), db') \<Rightarrow>
          (case Error res of
             Some err \<Rightarrow> ((0, Some err), db')
           | None \<Rightarrow> ((cnt, None), db')))"

definition ObjectsQuery_Exists :: "ObjectsQuery \<Rightarrow> DB \<Rightarrow> (bool \<times> error option) \<times> DB" where
  "ObjectsQuery_Exists q db =
     (case ObjectsQuery_Count q db of
        ((cnt, Some err), db') \<Rightarrow> ((False, Some err), db')
      | ((cnt, None), db') \<Rightarrow> ((cnt > 0, None), db'))"

text \<open>
  \<^verbatim>\<open>DeleteUnreferenced\<close> (lines 342 to 347) calls \<^verbatim>\<open>Model\<close>, \<^verbatim>\<open>Where\<close> and
  \<^verbatim>\<open>Select\<close> on the handle \<^verbatim>\<open>q.DB\<close> of the query itself, the handle that
  \<^verbatim>\<open>db.Model(&Object{})\<close> returned in \<^verbatim>\<open>NewObjectsQuery\<close>. On such a handle gorm's
  chain methods change the statement in place and return the same handle. So the
  statement of the handle is modelled with its parts: the model that names its table,
  its clauses and its selected columns. A clause is a clause of the query, the text
  \<^verbatim>\<open>object = objects.id\<close>, or the text \<^verbatim>\<open>(?) = 0 AND id in ?\<close> whose first argument
  is the handle that carries the clause.
\<close>

datatype gorm_model =
    Model_Object
  | Model_ObjRef

datatype statement_clause =
    plain_clause objects_cond
  | object_eq_objects_id
  | own_handle_eq_0_AND_id_in "nat list"





text \<open>
  Which clauses the engine accepts at the top of a delete on the table of the model.
  \<^verbatim>\<open>cid\<close> is a column of objects and not of obj_refs; \<^verbatim>\<open>objects.id\<close> names a table
  that a delete on obj_refs does not have, and \<^verbatim>\<open>object\<close> is no column of objects; a
  statement that takes its own handle as sub-query renders as a delete inside a
  delete.
\<close>

fun clause_accepted :: "gorm_model \<Rightarrow> statement_clause \<Rightarrow> bool" where
  "clause_accepted Model_Object (plain_clause c) = True"
| "clause_accepted Model_ObjRef (plain_clause c) = False"
| "clause_accepted m object_eq_objects_id = False"
| "clause_accepted m (own_handle_eq_0_AND_id_in ids) = False"




subsection \<open>Object references\<close>

datatype obj_refs_cond =
    obj_refs_pin_eq nat

fun obj_refs_holds :: "obj_refs_cond \<Rightarrow> ObjRef \<Rightarrow> bool" where
  "obj_refs_holds (obj_refs_pin_eq pinID) r = (ObjRef_Pin r = pinID)"

type_synonym ObjRefsQuery = "obj_refs_cond list"

definition obj_refs_match :: "ObjRefsQuery \<Rightarrow> ObjRef \<Rightarrow> bool" where
  "obj_refs_match q r = list_all (\<lambda>c. obj_refs_holds c r) q"

definition NewObjRefsQuery :: ObjRefsQuery where
  "NewObjRefsQuery = []"

definition ObjRefsQuery_WithPinID :: "ObjRefsQuery \<Rightarrow> nat \<Rightarrow> ObjRefsQuery" where
  "ObjRefsQuery_WithPinID q pinID = q @ [obj_refs_pin_eq pinID]"

definition ObjRefsQuery_Delete :: "ObjRefsQuery \<Rightarrow> DB \<Rightarrow> error option \<times> DB" where
  "ObjRefsQuery_Delete q db =
     (case gorm_Delete (q \<noteq> []) (obj_refs_match q) (obj_refs db) db of
        ((res, rows'), db') \<Rightarrow> (Error res, db'\<lparr>obj_refs := rows'\<rparr>))"

subsection \<open>Deals\<close>

datatype deals_cond =
    deals_content_eq nat
  | deals_content_IN "nat list"

fun deals_holds :: "deals_cond \<Rightarrow> contentDeal \<Rightarrow> bool" where
  "deals_holds (deals_content_eq contentID) d = (contentDeal_Content d = contentID)"
| "deals_holds (deals_content_IN contentIDs) d = (contentDeal_Content d \<in> set contentIDs)"

type_synonym DealsQuery = "deals_cond list"

definition deals_match :: "DealsQuery \<Rightarrow> contentDeal \<Rightarrow> bool" where
  "deals_match q d = list_all (\<lambda>c. deals_holds c d) q"

definition NewDealsQuery :: DealsQuery where
  "NewDealsQuery = []"

definition DealsQuery_WithContentID :: "DealsQuery \<Rightarrow> nat \<Rightarrow> DealsQuery" where
  "DealsQuery_WithContentID q contentID = q @ [deals_content_eq contentID]"

definition DealsQuery_WithContentIDs :: "DealsQuery \<Rightarrow> nat list \<Rightarrow> DealsQuery" where
  "DealsQuery_WithContentIDs q contentIDs = q @ [deals_content_IN contentIDs]"

definition DealsQuery_GetAll :: "DealsQuery \<Rightarrow> DB \<Rightarrow> (contentDeal list \<times> error option) \<times> DB" where
  "DealsQuery_GetAll q db =
     (case gorm_Find (deals_match q) (\<lambda>rows. rows) (content_deals db) db of
        ((found, res), db') \<Rightarrow>
          (case Error res of
             Some err \<Rightarrow> (([], Some err), db')
           | None \<Rightarrow> ((found, None), db')))"

subsection \<open>Opening the store (NewDBMgr)\<close>

text \<open>
  The loop of lines 119 to 121: one \<^verbatim>\<open>Create\<close> per default miner; what a
  \<^verbatim>\<open>Create\<close> reports is not looked at.
\<close>

fun NewDBMgr_create_miners :: "address list \<Rightarrow> DB \<Rightarrow> DB" where
  "NewDBMgr_create_miners [] db = db"
| "NewDBMgr_create_miners (m # ms) db =
     (case gorm_Create \<lparr>Address = m\<rparr> (storage_miners db) db of
        ((res, rows'), db') \<Rightarrow> NewDBMgr_create_miners ms (db'\<lparr>storage_miners := rows'\<rparr>))"

text \<open>
  Lines 110 to 125, on the opened and migrated store. The list \<^verbatim>\<open>defaultMiners\<close> is
  declared elsewhere in the repository and is a parameter.
\<close>

definition NewDBMgr_seed :: "address list \<Rightarrow> DB \<Rightarrow> DB option \<times> error option" where
  "NewDBMgr_seed defaultMiners db =
     (case gorm_Count (\<lambda>m. True) (storage_miners db) db of
        ((cnt, res), db') \<Rightarrow>
          (case Error res of
             Some err \<Rightarrow> (None, Some err)
           | None \<Rightarrow>
               if cnt = 0 then (Some (NewDBMgr_create_miners defaultMiners db'), None)
               else (Some db', None)))"

text \<open>\<^verbatim>\<open>strings.SplitN(dbval, "=", 2)\<close>.\<close>

definition SplitN_eq_2 :: "string \<Rightarrow> string list" where
  "SplitN_eq_2 s =
     (if CHR ''='' \<in> set s
      then [takeWhile (\<lambda>c. c \<noteq> CHR ''='') s, tl (dropWhile (\<lambda>c. c \<noteq> CHR ''='') s)]
      else [s])"

text \<open>
  Lines 56 to 125. The parameter \<open>open_store\<close> stands for lines 62 to 108: opening the
  dialect named by the first part with the second part as parameters, taking the
  connection pool and migrating the tables; it gives the store as it stands at
  line 110, or the error of \<^verbatim>\<open>gorm.Open\<close> or \<^verbatim>\<open>db.DB\<close>.
\<close>

definition NewDBMgr ::
  "(string \<Rightarrow> string \<Rightarrow> DB \<times> error option) \<Rightarrow> address list \<Rightarrow> string \<Rightarrow> DB option \<times> error option" where
  "NewDBMgr open_store defaultMiners dbval =
     (let parts = SplitN_eq_2 dbval
      in if length parts = 1 then (None, Some ErrDBStringFormat)
         else if parts ! 0 \<noteq> ''sqlite'' \<and> parts ! 0 \<noteq> ''postgres''
         then (None, Some (ErrUnsupportedDBType (parts ! 0)))
         else (case open_store (parts ! 0) (parts ! 1) of
                 (db, Some err) \<Rightarrow> (None, Some err)
               | (db, None) \<Rightarrow> NewDBMgr_seed defaultMiners db))"


section \<open>Example stores\<close>

definition empty_DB :: DB where
  "empty_DB = \<lparr>users = [], contents = [], objects = [], obj_refs = [], content_deals = [],
     storage_miners = [], faults = []\<rparr>"

text \<open>Two users.\<close>

definition users_DB :: DB where
  "users_DB = empty_DB\<lparr>users :=
     [\<lparr>User_ID = 1, User_Username = ''alice''\<rparr>, \<lparr>User_ID = 2, User_Username = ''bob''\<rparr>]\<rparr>"

text \<open>
  An aggregate (id 1), two members of it created at times 30 and 20 (ids 2 and 3), and
  an unrelated content (id 4).
\<close>

definition family_DB :: DB where
  "family_DB = empty_DB\<lparr>contents :=
     [\<lparr>Content_ID = 1, Content_Cid = [], Content_UserID = 1, Content_Active = True,
        Content_Aggregate = True, Content_AggregatedIn = 0, Content_CreatedAt = 10\<rparr>,
      \<lparr>Content_ID = 2, Content_Cid = [], Content_UserID = 1, Content_Active = True,
        Content_Aggregate = False, Content_AggregatedIn = 1, Content_CreatedAt = 30\<rparr>,
      \<lparr>Content_ID = 3, Content_Cid = [], Content_UserID = 1, Content_Active = True,
        Content_Aggregate = False, Content_AggregatedIn = 1, Content_CreatedAt = 20\<rparr>,
      \<lparr>Content_ID = 4, Content_Cid = [], Content_UserID = 1, Content_Active = True,
        Content_Aggregate = False, Content_AggregatedIn = 0, Content_CreatedAt = 5\<rparr>]\<rparr>"


text \<open>One content (id 1) with a deal and an object reference that name it.\<close>

definition in_use_DB :: DB where
  "in_use_DB = empty_DB\<lparr>
     contents := [\<lparr>Content_ID = 1, Content_Cid = [], Content_UserID = 1, Content_Active = True,
                    Content_Aggregate = False, Content_AggregatedIn = 0, Content_CreatedAt = 10\<rparr>],
     obj_refs := [\<lparr>ObjRef_ID = 1, ObjRef_Object = 2, ObjRef_Pin = 1\<rparr>],
     content_deals := [\<lparr>contentDeal_ID = 1, contentDeal_Content = 1\<rparr>]\<rparr>"

text \<open>The same content with nothing that names it.\<close>

definition cleared_DB :: DB where
  "cleared_DB = in_use_DB\<lparr>obj_refs := [], content_deals := []\<rparr>"

text \<open>A store whose engine reports an error for the next statement.\<close>

definition failing_DB :: DB where
  "failing_DB = in_use_DB\<lparr>faults := [Some (StorageEngineError ''connection reset'')]\<rparr>"

section \<open>Properties\<close>

subsection \<open>The identifier codec\<close>

lemma sample_gocid_contract: "gocid_contract sample_gocid"
  unfolding gocid_contract_def sample_gocid_def
  using Rep_sample_cid Rep_sample_cid_inverse Abs_sample_cid_inverse Rep_sample_cid_inject
  by (auto simp: Abs_sample_cid_inverse) (metis Rep_sample_cid_inverse)+

lemma sample_cid_defined:
  "Abs_sample_cid [1, 0x55, 0x12, 2, 0xAB, 0xCD] \<noteq> Undef sample_gocid"
  by (simp add: sample_gocid_def Abs_sample_cid_inject)

lemma sample_Cast [simp]:
  "Cast sample_gocid [0xFF] = (Undef sample_gocid, Some ErrInvalidCid)"
  "Cast sample_gocid [1, 0x55, 0x12, 2, 0xAB, 0xCD]
     = (Abs_sample_cid [1, 0x55, 0x12, 2, 0xAB, 0xCD], None)"
  by (simp_all add: sample_gocid_def)

lemma sample_bytesToCid [simp]:
  "bytesToCid sample_gocid [] = (Undef sample_gocid, None)"
  "bytesToCid sample_gocid [1, 0x55, 0x12, 2, 0xAB, 0xCD]
     = (Abs_sample_cid [1, 0x55, 0x12, 2, 0xAB, 0xCD], None)"
  "bytesToCid sample_gocid [0xFF] = (Undef sample_gocid, Some ErrInvalidCid)"
  by (simp_all add: bytesToCid_def sample_gocid_def)

lemma sample_Bytes [simp]:
  "Bytes sample_gocid (Abs_sample_cid [1, 0x55, 0x12, 2, 0xAB, 0xCD])
     = [1, 0x55, 0x12, 2, 0xAB, 0xCD]"
  "Bytes sample_gocid (Undef sample_gocid) = []"
  by (simp_all add: sample_gocid_def Abs_sample_cid_inverse)

lemma bytesToCid_empty: "bytesToCid L [] = (Undef L, None)"
  by (simp add: bytesToCid_def)

lemma bytesToCid_defined:
  "gocid_contract L \<Longrightarrow> x \<noteq> Undef L \<Longrightarrow> bytesToCid L (cidToBytes L x) = (x, None)"
  by (auto simp: gocid_contract_def bytesToCid_def cidToBytes_def)

lemma bytesToCid_malformed:
  "bs \<noteq> [] \<Longrightarrow> Cast L bs = (c, Some err) \<Longrightarrow> bytesToCid L bs = (Undef L, Some err)"
  by (simp add: bytesToCid_def)

lemma bytesToCids_loop_ok:
  "\<forall>bs \<in> set bsl. snd (bytesToCid L bs) = None \<Longrightarrow>
   bytesToCids_loop L bsl acc = (acc @ map (\<lambda>bs. fst (bytesToCid L bs)) bsl, None)"
  by (induction bsl arbitrary: acc) (auto split: prod.splits option.splits)

lemma bytesToCids_loop_fail:
  "\<forall>bs \<in> set pre. snd (bytesToCid L bs) = None \<Longrightarrow> snd (bytesToCid L bad) = Some err \<Longrightarrow>
   bytesToCids_loop L (pre @ bad # post) acc = ([], Some err)"
  by (induction pre arbitrary: acc) (auto split: prod.splits option.splits)

lemma cidsToBytes_loop_eq:
  "cidsToBytes_loop L cids acc = acc @ map (cidToBytes L) cids"
  by (induction cids arbitrary: acc) auto

text \<open>
  Claim C2. For a library that meets its contract: decoding the encoding of a defined
  identifier gives the identifier back without an error; decoding the empty byte
  sequence gives the undefined identifier without an error; decoding a non-empty byte
  sequence that the library rejects gives the undefined identifier together with the
  library's error.
\<close>

theorem bytesToCid_cidToBytes_roundtrip:
  assumes "gocid_contract L"
  shows "(\<forall>x. x \<noteq> Undef L \<longrightarrow> bytesToCid L (cidToBytes L x) = (x, None)) \<and>
         bytesToCid L [] = (Undef L, None) \<and>
         (\<forall>bs c err. bs \<noteq> [] \<longrightarrow> Cast L bs = (c, Some err) \<longrightarrow>
            bytesToCid L bs = (Undef L, Some err))"
  using assms by (simp add: bytesToCid_defined bytesToCid_empty bytesToCid_malformed)

text \<open>
  Claim C2 on the sample library: a version 1 identifier with a two-byte digest goes
  round, and the single byte \<open>0xFF\<close> is rejected.
\<close>

theorem bytesToCid_cidToBytes_roundtrip_witness:
  "gocid_contract sample_gocid \<and>
   Abs_sample_cid [1, 0x55, 0x12, 2, 0xAB, 0xCD] \<noteq> Undef sample_gocid \<and>
   bytesToCid sample_gocid (cidToBytes sample_gocid (Abs_sample_cid [1, 0x55, 0x12, 2, 0xAB, 0xCD]))
     = (Abs_sample_cid [1, 0x55, 0x12, 2, 0xAB, 0xCD], None) \<and>
   bytesToCid sample_gocid [] = (Undef sample_gocid, None) \<and>
   [0xFF :: byte] \<noteq> [] \<and>
   Cast sample_gocid [0xFF] = (Undef sample_gocid, Some ErrInvalidCid) \<and>
   bytesToCid sample_gocid [0xFF] = (Undef sample_gocid, Some ErrInvalidCid)"
  using bytesToCid_cidToBytes_roundtrip [OF sample_gocid_contract]
    sample_gocid_contract sample_cid_defined
  by simp

text \<open>
  Claim C5. When every element decodes, the batch decode is the scalar decode applied
  to each element, in order; when some element does not decode, the batch decode
  returns an error and the empty (nil) list; the batch encode is the scalar encode
  applied to each element, in order.
\<close>

theorem batch_codec_elementwise:
  "((\<forall>bs \<in> set bsl. snd (bytesToCid L bs) = None) \<longrightarrow>
      bytesToCids L bsl = (map (\<lambda>bs. fst (bytesToCid L bs)) bsl, None)) \<and>
   ((\<exists>bs \<in> set bsl. snd (bytesToCid L bs) \<noteq> None) \<longrightarrow>
      fst (bytesToCids L bsl) = [] \<and> snd (bytesToCids L bsl) \<noteq> None) \<and>
   cidsToBytes L cids = map (cidToBytes L) cids"
proof (intro conjI impI)
  assume "\<forall>bs \<in> set bsl. snd (bytesToCid L bs) = None"
  then show "bytesToCids L bsl = (map (\<lambda>bs. fst (bytesToCid L bs)) bsl, None)"
    by (simp add: bytesToCids_def bytesToCids_loop_ok)
next
  assume "\<exists>bs \<in> set bsl. snd (bytesToCid L bs) \<noteq> None"
  then obtain pre bad post where
    split: "bsl = pre @ bad # post" and bad: "snd (bytesToCid L bad) \<noteq> None"
    and pre: "\<forall>bs \<in> set pre. \<not> snd (bytesToCid L bs) \<noteq> None"
    using split_list_first_prop [of bsl "\<lambda>bs. snd (bytesToCid L bs) \<noteq> None"] by blast
  from bad obtain err where "snd (bytesToCid L bad) = Some err" by auto
  with pre have "bytesToCids L bsl = ([], Some err)"
    unfolding bytesToCids_def split by (intro bytesToCids_loop_fail) auto
  then show "fst (bytesToCids L bsl) = []" and "snd (bytesToCids L bsl) \<noteq> None" by simp_all
next
  show "cidsToBytes L cids = map (cidToBytes L) cids"
    by (simp add: cidsToBytes_def cidsToBytes_loop_eq)
qed

text \<open>
  Claim C5 on the sample library: a list that decodes, a list whose second element is
  rejected (the identifier decoded before it is not returned), and a list to encode.
\<close>

theorem batch_codec_elementwise_witness:
  "snd (bytesToCid sample_gocid []) = None \<and>
   snd (bytesToCid sample_gocid [1, 0x55, 0x12, 2, 0xAB, 0xCD]) = None \<and>
   bytesToCids sample_gocid [[], [1, 0x55, 0x12, 2, 0xAB, 0xCD]]
     = ([Undef sample_gocid, Abs_sample_cid [1, 0x55, 0x12, 2, 0xAB, 0xCD]], None) \<and>
   (\<exists>bs \<in> set [[1, 0x55, 0x12, 2, 0xAB, 0xCD], [0xFF], []].
      snd (bytesToCid sample_gocid bs) \<noteq> None) \<and>
   fst (bytesToCids sample_gocid [[1, 0x55, 0x12, 2, 0xAB, 0xCD], [0xFF], []]) = [] \<and>
   snd (bytesToCids sample_gocid [[1, 0x55, 0x12, 2, 0xAB, 0xCD], [0xFF], []]) \<noteq> None \<and>
   cidsToBytes sample_gocid [Abs_sample_cid [1, 0x55, 0x12, 2, 0xAB, 0xCD], Undef sample_gocid]
     = [[1, 0x55, 0x12, 2, 0xAB, 0xCD], []]"
  using batch_codec_elementwise [of "[[], [1, 0x55, 0x12, 2, 0xAB, 0xCD]]" sample_gocid
          "[Abs_sample_cid [1, 0x55, 0x12, 2, 0xAB, 0xCD], Undef sample_gocid]"]
        batch_codec_elementwise [of "[[1, 0x55, 0x12, 2, 0xAB, 0xCD], [0xFF], []]"
          sample_gocid "[]"]
  by (simp add: cidToBytes_def)

text \<open>
  Claim C10. For a library that meets its contract: the undefined identifier encodes
  to the empty byte sequence, which decodes to the undefined identifier without an
  error, so the round trip holds for every identifier, the undefined one included; and
  a batch decode of a list whose non-empty elements the library accepts succeeds,
  giving the undefined identifier at each empty element.
\<close>

theorem undefined_identifier_roundtrip:
  assumes "gocid_contract L"
  shows "cidToBytes L (Undef L) = [] \<and>
         bytesToCid L (cidToBytes L (Undef L)) = (Undef L, None) \<and>
         (\<forall>x. bytesToCid L (cidToBytes L x) = (x, None)) \<and>
         (\<forall>bsl. (\<forall>bs \<in> set bsl. bs \<noteq> [] \<longrightarrow> snd (Cast L bs) = None) \<longrightarrow>
            bytesToCids L bsl =
              (map (\<lambda>bs. if bs = [] then Undef L else fst (Cast L bs)) bsl, None))"
proof -
  have enc: "cidToBytes L (Undef L) = []"
    using assms by (simp add: gocid_contract_def cidToBytes_def)
  have rt: "bytesToCid L (cidToBytes L x) = (x, None)" for x
    using assms enc by (cases "x = Undef L") (simp_all add: bytesToCid_empty bytesToCid_defined)
  have batch: "bytesToCids L bsl =
      (map (\<lambda>bs. if bs = [] then Undef L else fst (Cast L bs)) bsl, None)"
    if ok: "\<forall>bs \<in> set bsl. bs \<noteq> [] \<longrightarrow> snd (Cast L bs) = None" for bsl
  proof -
    have each: "bytesToCid L bs = (if bs = [] then Undef L else fst (Cast L bs), None)"
      if "bs \<in> set bsl" for bs
      using ok that by (auto simp: bytesToCid_def split: prod.splits option.splits)
    then have "\<forall>bs \<in> set bsl. snd (bytesToCid L bs) = None" by simp
    then have "bytesToCids L bsl = (map (\<lambda>bs. fst (bytesToCid L bs)) bsl, None)"
      by (simp add: bytesToCids_def bytesToCids_loop_ok)
    moreover have "map (\<lambda>bs. fst (bytesToCid L bs)) bsl =
        map (\<lambda>bs. if bs = [] then Undef L else fst (Cast L bs)) bsl"
      using each by (intro map_cong) simp_all
    ultimately show ?thesis by simp
  qed
  from enc rt batch show ?thesis by (simp add: bytesToCid_empty)
qed

text \<open>
  Claim C10 on the sample library: a list with two empty elements around an identifier.
\<close>

theorem undefined_identifier_roundtrip_witness:
  "gocid_contract sample_gocid \<and>
   cidToBytes sample_gocid (Undef sample_gocid) = [] \<and>
   bytesToCid sample_gocid (cidToBytes sample_gocid (Undef sample_gocid))
     = (Undef sample_gocid, None) \<and>
   snd (Cast sample_gocid [1, 0x55, 0x12, 2, 0xAB, 0xCD]) = None \<and>
   bytesToCids sample_gocid [[], [1, 0x55, 0x12, 2, 0xAB, 0xCD], []]
     = ([Undef sample_gocid, Abs_sample_cid [1, 0x55, 0x12, 2, 0xAB, 0xCD], Undef sample_gocid],
        None)"
  using undefined_identifier_roundtrip [OF sample_gocid_contract] sample_gocid_contract
  by simp


subsection \<open>Counting and deleting\<close>

text \<open>
  Claim C7. \<^verbatim>\<open>Exists\<close> returns true exactly when \<^verbatim>\<open>Count\<close> on the same query and
  store returns a number above zero; it returns what \<^verbatim>\<open>Count\<close> returns as error, and
  false together with the error when \<^verbatim>\<open>Count\<close> reports one. When the engine reports
  no error, it is true exactly when some row satisfies every clause. This holds for
  the queries on users and on objects.
\<close>

theorem Exists_iff_Count_positive:
  "(fst (fst (UsersQuery_Exists q db)) \<longleftrightarrow> 0 < fst (fst (UsersQuery_Count q db))) \<and>
   snd (fst (UsersQuery_Exists q db)) = snd (fst (UsersQuery_Count q db)) \<and>
   snd (UsersQuery_Exists q db) = snd (UsersQuery_Count q db) \<and>
   (\<forall>err. snd (fst (UsersQuery_Count q db)) = Some err \<longrightarrow>
      fst (UsersQuery_Exists q db) = (False, Some err)) \<and>
   (fst (engine_step db) = None \<longrightarrow>
      fst (UsersQuery_Exists q db) = (\<exists>u \<in> set (users db). users_match q u, None)) \<and>
   (fst (fst (ObjectsQuery_Exists oq db)) \<longleftrightarrow> 0 < fst (fst (ObjectsQuery_Count oq db))) \<and>
   snd (fst (ObjectsQuery_Exists oq db)) = snd (fst (ObjectsQuery_Count oq db)) \<and>
   snd (ObjectsQuery_Exists oq db) = snd (ObjectsQuery_Count oq db) \<and>
   (\<forall>err. snd (fst (ObjectsQuery_Count oq db)) = Some err \<longrightarrow>
      fst (ObjectsQuery_Exists oq db) = (False, Some err)) \<and>
   (fst (engine_step db) = None \<longrightarrow>
      fst (ObjectsQuery_Exists oq db)
        = (\<exists>ob \<in> set (objects db). objects_match (obj_refs db) oq ob, None))"
  by (auto simp: UsersQuery_Exists_def UsersQuery_Count_def ObjectsQuery_Exists_def
      ObjectsQuery_Count_def gorm_Count_def filter_empty_conv
      split: prod.splits option.splits)

text \<open>
  Claim C7 on stores: with the engine failing, both \<^verbatim>\<open>Exists\<close> return false and the
  error; with the engine running, they tell whether a row matches.
\<close>

theorem Exists_iff_Count_positive_witness:
  "snd (fst (UsersQuery_Count (UsersQuery_WithID NewUsersQuery 1) failing_DB))
     = Some (StorageEngineError ''connection reset'') \<and>
   fst (UsersQuery_Exists (UsersQuery_WithID NewUsersQuery 1) failing_DB)
     = (False, Some (StorageEngineError ''connection reset'')) \<and>
   snd (fst (ObjectsQuery_Count NewObjectsQuery failing_DB))
     = Some (StorageEngineError ''connection reset'') \<and>
   fst (ObjectsQuery_Exists NewObjectsQuery failing_DB)
     = (False, Some (StorageEngineError ''connection reset'')) \<and>
   fst (engine_step users_DB) = None \<and>
   fst (UsersQuery_Exists (UsersQuery_WithID NewUsersQuery 1) users_DB) = (True, None) \<and>
   fst (ObjectsQuery_Exists NewObjectsQuery users_DB) = (False, None)"
  using Exists_iff_Count_positive [of "UsersQuery_WithID NewUsersQuery 1" failing_DB
          NewObjectsQuery]
        Exists_iff_Count_positive [of "UsersQuery_WithID NewUsersQuery 1" users_DB
          NewObjectsQuery]
  by (simp add: UsersQuery_Count_def ObjectsQuery_Count_def gorm_Count_def engine_step_def
      failing_DB_def in_use_DB_def users_DB_def empty_DB_def users_match_def
      UsersQuery_WithID_def NewUsersQuery_def)

text \<open>
  Claim C6. When the delete itself reports no error, \<^verbatim>\<open>ExpectDelete\<close> returns the
  not-found error exactly when the delete affected zero rows, and returns no error
  when it affected one or more; the rows affected are the users that satisfy every
  clause of the query, and they are the rows removed.
\<close>

theorem ExpectDelete_NotFound_iff_no_rows:
  assumes "Error (fst (fst (gorm_Delete (q \<noteq> []) (users_match q) (users db) db))) = None"
  shows "(fst (UsersQuery_ExpectDelete q db) = Some ErrRecordNotFound \<longleftrightarrow>
            RowsAffected (fst (fst (gorm_Delete (q \<noteq> []) (users_match q) (users db) db))) = 0) \<and>
         (0 < RowsAffected (fst (fst (gorm_Delete (q \<noteq> []) (users_match q) (users db) db))) \<longrightarrow>
            fst (UsersQuery_ExpectDelete q db) = None) \<and>
         RowsAffected (fst (fst (gorm_Delete (q \<noteq> []) (users_match q) (users db) db)))
           = int (length (filter (users_match q) (users db))) \<and>
         users (snd (UsersQuery_ExpectDelete q db)) = filter (\<lambda>u. \<not> users_match q u) (users db)"
  using assms
  by (auto simp: UsersQuery_ExpectDelete_def gorm_Delete_def
      split: prod.splits option.splits if_splits)

text \<open>
  Claim C6 on the store of two users: deleting the user named alice succeeds and
  leaves bob; deleting a user named carol, who is not there, gives the not-found error.
\<close>

theorem ExpectDelete_NotFound_iff_no_rows_witness:
  "Error (fst (fst (gorm_Delete (UsersQuery_WithUsername NewUsersQuery ''alice'' \<noteq> [])
      (users_match (UsersQuery_WithUsername NewUsersQuery ''alice'')) (users users_DB) users_DB)))
     = None \<and>
   fst (UsersQuery_ExpectDelete (UsersQuery_WithUsername NewUsersQuery ''alice'') users_DB) = None \<and>
   users (snd (UsersQuery_ExpectDelete (UsersQuery_WithUsername NewUsersQuery ''alice'') users_DB))
     = [\<lparr>User_ID = 2, User_Username = ''bob''\<rparr>] \<and>
   Error (fst (fst (gorm_Delete (UsersQuery_WithUsername NewUsersQuery ''carol'' \<noteq> [])
      (users_match (UsersQuery_WithUsername NewUsersQuery ''carol'')) (users users_DB) users_DB)))
     = None \<and>
   fst (UsersQuery_ExpectDelete (UsersQuery_WithUsername NewUsersQuery ''carol'') users_DB)
     = Some ErrRecordNotFound"
  using ExpectDelete_NotFound_iff_no_rows [of "UsersQuery_WithUsername NewUsersQuery ''alice''" users_DB]
        ExpectDelete_NotFound_iff_no_rows [of "UsersQuery_WithUsername NewUsersQuery ''carol''" users_DB]
  by (simp add: gorm_Delete_def engine_step_def users_DB_def empty_DB_def users_match_def
      UsersQuery_WithUsername_def NewUsersQuery_def)


subsection \<open>Fetching\<close>

lemma contents_sort_children:
  "contents_sort (contents_Order (ContentsQuery_OrderByCreationDate
      (ContentsQuery_WithAggregatedIn NewContentsQuery a) OrderAscending)) rows
   = sort_key Content_CreatedAt rows"
proof -
  have "contents_order_key created_at_ASC = Content_CreatedAt" by (rule ext) simp
  then show ?thesis
    by (simp add: contents_sort_def ContentsQuery_OrderByCreationDate_def
        ContentsQuery_WithAggregatedIn_def NewContentsQuery_def contents_add_Order_def
        contents_add_Where_def OrderAscending_def OrderDescending_def)
qed

lemma contents_match_children:
  "contents_match (ContentsQuery_OrderByCreationDate
      (ContentsQuery_WithAggregatedIn NewContentsQuery a) OrderAscending)
   = (\<lambda>c. Content_AggregatedIn c = a)"
  by (rule ext) (simp add: contents_match_def ContentsQuery_OrderByCreationDate_def
      ContentsQuery_WithAggregatedIn_def NewContentsQuery_def contents_add_Order_def
      contents_add_Where_def OrderAscending_def OrderDescending_def)

text \<open>
  Claim C9. When the engine reports no error, fetching all contents with the filter
  \<^verbatim>\<open>aggregated_in = a\<close> in ascending order of creation time returns, without an error,
  the contents whose \<^verbatim>\<open>aggregated_in\<close> is \<open>a\<close>: exactly those rows, each as often as
  it is stored, sorted by creation time ascending.
\<close>

theorem children_of_aggregate_by_creation_time:
  assumes "fst (engine_step db) = None"
  shows "fst (ContentsQuery_GetAll (ContentsQuery_OrderByCreationDate
            (ContentsQuery_WithAggregatedIn NewContentsQuery a) OrderAscending) db)
         = (sort_key Content_CreatedAt
              (filter (\<lambda>c. Content_AggregatedIn c = a) (contents db)), None) \<and>
         set (sort_key Content_CreatedAt (filter (\<lambda>c. Content_AggregatedIn c = a) (contents db)))
         = {c \<in> set (contents db). Content_AggregatedIn c = a} \<and>
         mset (sort_key Content_CreatedAt (filter (\<lambda>c. Content_AggregatedIn c = a) (contents db)))
         = filter_mset (\<lambda>c. Content_AggregatedIn c = a) (mset (contents db)) \<and>
         sorted (map Content_CreatedAt
            (sort_key Content_CreatedAt (filter (\<lambda>c. Content_AggregatedIn c = a) (contents db))))"
proof -
  have "fst (ContentsQuery_GetAll (ContentsQuery_OrderByCreationDate
            (ContentsQuery_WithAggregatedIn NewContentsQuery a) OrderAscending) db)
         = (sort_key Content_CreatedAt
              (filter (\<lambda>c. Content_AggregatedIn c = a) (contents db)), None)"
    using assms
    by (auto simp: ContentsQuery_GetAll_def gorm_Find_def contents_sort_children
        contents_match_children Let_def split: prod.splits option.splits)
  then show ?thesis by simp
qed

text \<open>
  Claim C9 on the store with an aggregate and two members: the children of content 1
  are content 3 (created at 20) and then content 2 (created at 30).
\<close>

theorem children_of_aggregate_by_creation_time_witness:
  "fst (engine_step family_DB) = None \<and>
   fst (ContentsQuery_GetAll (ContentsQuery_OrderByCreationDate
          (ContentsQuery_WithAggregatedIn NewContentsQuery 1) OrderAscending) family_DB)
   = ([\<lparr>Content_ID = 3, Content_Cid = [], Content_UserID = 1, Content_Active = True,
         Content_Aggregate = False, Content_AggregatedIn = 1, Content_CreatedAt = 20\<rparr>,
       \<lparr>Content_ID = 2, Content_Cid = [], Content_UserID = 1, Content_Active = True,
         Content_Aggregate = False, Content_AggregatedIn = 1, Content_CreatedAt = 30\<rparr>], None)"
  using children_of_aggregate_by_creation_time [of family_DB 1]
  by (simp add: engine_step_def family_DB_def empty_DB_def)

text \<open>
  Claim C3, at an input where the code departs from it. With the engine reporting an
  error for the statement, \<^verbatim>\<open>ContentsQuery.GetAll\<close> returns the empty list and no
  error (line 295 returns \<^verbatim>\<open>nil, nil\<close>), while \<^verbatim>\<open>DealsQuery.GetAll\<close> on the same
  store returns the error. With the engine running and no row matching, both return
  the empty list and no error.
\<close>

theorem ContentsQuery_GetAll_swallows_error:
  "fst (ContentsQuery_GetAll NewContentsQuery failing_DB) = ([], None) \<and>
   fst (DealsQuery_GetAll NewDealsQuery failing_DB)
     = ([], Some (StorageEngineError ''connection reset'')) \<and>
   fst (ContentsQuery_GetAll (ContentsQuery_WithID NewContentsQuery 7) in_use_DB) = ([], None) \<and>
   fst (DealsQuery_GetAll (DealsQuery_WithContentID NewDealsQuery 7) in_use_DB) = ([], None)"
  by (simp add: ContentsQuery_GetAll_def DealsQuery_GetAll_def gorm_Find_def engine_step_def
      failing_DB_def in_use_DB_def empty_DB_def NewContentsQuery_def NewDealsQuery_def
      ContentsQuery_WithID_def DealsQuery_WithContentID_def contents_add_Where_def
      contents_match_def deals_match_def contents_sort_def)


subsection \<open>Seeding the miner registry\<close>

lemma engine_step_no_faults:
  assumes "set (faults db) \<subseteq> {None}"
  obtains db' where "engine_step db = (None, db')"
    and "storage_miners db' = storage_miners db" and "set (faults db') \<subseteq> {None}"
  using assms by (cases "faults db") (auto simp: engine_step_def)

lemma NewDBMgr_create_miners_appends:
  "set (faults db) \<subseteq> {None} \<Longrightarrow>
   storage_miners (NewDBMgr_create_miners ms db)
     = storage_miners db @ map (\<lambda>m. \<lparr>Address = m\<rparr>) ms \<and>
   set (faults (NewDBMgr_create_miners ms db)) \<subseteq> {None}"
proof (induction ms arbitrary: db)
  case Nil
  then show ?case by simp
next
  case (Cons m ms)
  from Cons.prems obtain db' where step: "engine_step db = (None, db')"
    and sm: "storage_miners db' = storage_miners db" and nf: "set (faults db') \<subseteq> {None}"
    by (rule engine_step_no_faults)
  let ?db1 = "db'\<lparr>storage_miners := storage_miners db @ [\<lparr>Address = m\<rparr>]\<rparr>"
  have run: "NewDBMgr_create_miners (m # ms) db = NewDBMgr_create_miners ms ?db1"
    using step by (simp add: gorm_Create_def)
  have "set (faults ?db1) \<subseteq> {None}" using nf by simp
  from Cons.IH [OF this] show ?case unfolding run by simp
qed

lemma NewDBMgr_seed_empty:
  assumes "set (faults db) \<subseteq> {None}" and "storage_miners db = []"
  shows "\<exists>db'. NewDBMgr_seed dm db = (Some db', None) \<and>
           storage_miners db' = map (\<lambda>m. \<lparr>Address = m\<rparr>) dm \<and> set (faults db') \<subseteq> {None}"
proof -
  from assms(1) obtain db1 where step: "engine_step db = (None, db1)"
    and sm: "storage_miners db1 = storage_miners db" and nf: "set (faults db1) \<subseteq> {None}"
    by (rule engine_step_no_faults)
  have "NewDBMgr_seed dm db = (Some (NewDBMgr_create_miners dm db1), None)"
    using step assms(2) by (simp add: NewDBMgr_seed_def gorm_Count_def)
  with NewDBMgr_create_miners_appends [OF nf, of dm] sm assms(2) show ?thesis by simp
qed

lemma NewDBMgr_seed_nonempty:
  assumes "set (faults db) \<subseteq> {None}" and "storage_miners db \<noteq> []"
  shows "\<exists>db'. NewDBMgr_seed dm db = (Some db', None) \<and>
           storage_miners db' = storage_miners db \<and> set (faults db') \<subseteq> {None}"
proof -
  from assms(1) obtain db1 where step: "engine_step db = (None, db1)"
    and sm: "storage_miners db1 = storage_miners db" and nf: "set (faults db1) \<subseteq> {None}"
    by (rule engine_step_no_faults)
  have "NewDBMgr_seed dm db = (Some db1, None)"
    using step assms(2) by (simp add: NewDBMgr_seed_def gorm_Count_def)
  with sm nf show ?thesis by simp
qed

lemma NewDBMgr_seed_run:
  assumes "set (faults db) \<subseteq> {None}"
  shows "\<exists>db'. NewDBMgr_seed defaultMiners db = (Some db', None) \<and>
           set (faults db') \<subseteq> {None} \<and>
           (storage_miners db = [] \<longrightarrow>
              storage_miners db' = map (\<lambda>m. \<lparr>Address = m\<rparr>) defaultMiners) \<and>
           (storage_miners db \<noteq> [] \<longrightarrow> storage_miners db' = storage_miners db)"
proof (cases "storage_miners db = []")
  case True
  with NewDBMgr_seed_empty [OF assms True, of defaultMiners] show ?thesis by auto
next
  case False
  with NewDBMgr_seed_nonempty [OF assms False, of defaultMiners] show ?thesis by auto
qed

lemma SplitN_eq_2_parts:
  "CHR ''='' \<notin> set dbtype \<Longrightarrow> SplitN_eq_2 (dbtype @ ''='' @ params) = [dbtype, params]"
proof -
  assume no: "CHR ''='' \<notin> set dbtype"
  then have "takeWhile (\<lambda>c. c \<noteq> CHR ''='') (dbtype @ ''='' @ params) = dbtype"
    and "dropWhile (\<lambda>c. c \<noteq> CHR ''='') (dbtype @ ''='' @ params) = ''='' @ params"
    by (induction dbtype) auto
  then show ?thesis by (simp add: SplitN_eq_2_def)
qed

lemma NewDBMgr_opened:
  assumes "dbtype = ''sqlite'' \<or> dbtype = ''postgres''"
    and "open_store dbtype params = (db, None)"
  shows "NewDBMgr open_store defaultMiners (dbtype @ ''='' @ params)
           = NewDBMgr_seed defaultMiners db"
proof -
  from assms(1) have "CHR ''='' \<notin> set dbtype" by auto
  then have "SplitN_eq_2 (dbtype @ ''='' @ params) = [dbtype, params]"
    by (rule SplitN_eq_2_parts)
  with assms show ?thesis by (auto simp: NewDBMgr_def Let_def)
qed

text \<open>
  Claim C8. Let \<^verbatim>\<open>NewDBMgr\<close> be called with a database string \<^verbatim>\<open>sqlite=...\<close> or
  \<^verbatim>\<open>postgres=...\<close>, let the store open without an error, and let the engine report no
  error during the run. Then \<^verbatim>\<open>NewDBMgr\<close> succeeds; if the miner registry of the
  opened store is empty it inserts the default miners, one row each and in order, so
  that the registry has as many rows as the default list has entries; if the registry
  is not empty it inserts nothing; and a second call of \<^verbatim>\<open>NewDBMgr\<close> that opens the
  store left by the first, with a registry that is not empty, leaves the registry as
  it is.
\<close>

theorem NewDBMgr_seeds_empty_registry_only:
  assumes "dbtype = ''sqlite'' \<or> dbtype = ''postgres''"
    and "open_store dbtype params = (db, None)"
    and "set (faults db) \<subseteq> {None}"
  shows "\<exists>db'. NewDBMgr open_store defaultMiners (dbtype @ ''='' @ params) = (Some db', None) \<and>
           (storage_miners db = [] \<longrightarrow>
              storage_miners db' = map (\<lambda>m. \<lparr>Address = m\<rparr>) defaultMiners \<and>
              length (storage_miners db') = length defaultMiners) \<and>
           (storage_miners db \<noteq> [] \<longrightarrow> storage_miners db' = storage_miners db) \<and>
           (\<forall>reopen. reopen dbtype params = (db', None) \<longrightarrow> storage_miners db' \<noteq> [] \<longrightarrow>
              (\<exists>db''. NewDBMgr reopen defaultMiners (dbtype @ ''='' @ params) = (Some db'', None) \<and>
                 storage_miners db'' = storage_miners db'))"
proof -
  from NewDBMgr_seed_run [OF assms(3), of defaultMiners] obtain db' where
    r: "NewDBMgr_seed defaultMiners db = (Some db', None)"
    and nf: "set (faults db') \<subseteq> {None}"
    and empty: "storage_miners db = [] \<longrightarrow>
      storage_miners db' = map (\<lambda>m. \<lparr>Address = m\<rparr>) defaultMiners"
    and nonempty: "storage_miners db \<noteq> [] \<longrightarrow> storage_miners db' = storage_miners db"
    by blast
  have first: "NewDBMgr open_store defaultMiners (dbtype @ ''='' @ params) = (Some db', None)"
    using NewDBMgr_opened [of dbtype open_store params db defaultMiners] assms(1) assms(2) r
    by simp
  have second: "\<exists>db''. NewDBMgr reopen defaultMiners (dbtype @ ''='' @ params) = (Some db'', None) \<and>
      storage_miners db'' = storage_miners db'"
    if op: "reopen dbtype params = (db', None)" and ne: "storage_miners db' \<noteq> []" for reopen
  proof -
    from NewDBMgr_seed_run [OF nf, of defaultMiners] ne obtain db'' where
      "NewDBMgr_seed defaultMiners db' = (Some db'', None)"
      and "storage_miners db'' = storage_miners db'" by blast
    with NewDBMgr_opened [of dbtype reopen params db' defaultMiners] assms(1) op
    show ?thesis by simp
  qed
  from first empty nonempty second show ?thesis by auto
qed

text \<open>
  Claim C8 on the empty store with three default miners, opened as \<^verbatim>\<open>sqlite=estuary.db\<close>:
  the first call inserts three rows; the second call, which opens the store with these
  three rows, changes nothing.
\<close>

theorem NewDBMgr_seeds_empty_registry_only_witness:
  "(\<lambda>t p. (empty_DB, None :: error option)) ''sqlite'' ''estuary.db'' = (empty_DB, None) \<and>
   set (faults empty_DB) \<subseteq> {None} \<and>
   storage_miners empty_DB = [] \<and>
   NewDBMgr (\<lambda>t p. (empty_DB, None)) [''f01234'', ''f02345'', ''f03456''] ''sqlite=estuary.db''
     = (Some (empty_DB\<lparr>storage_miners :=
          [\<lparr>Address = ''f01234''\<rparr>, \<lparr>Address = ''f02345''\<rparr>, \<lparr>Address = ''f03456''\<rparr>]\<rparr>), None) \<and>
   NewDBMgr (\<lambda>t p. (empty_DB\<lparr>storage_miners :=
          [\<lparr>Address = ''f01234''\<rparr>, \<lparr>Address = ''f02345''\<rparr>, \<lparr>Address = ''f03456''\<rparr>]\<rparr>, None))
       [''f01234'', ''f02345'', ''f03456''] ''sqlite=estuary.db''
     = (Some (empty_DB\<lparr>storage_miners :=
          [\<lparr>Address = ''f01234''\<rparr>, \<lparr>Address = ''f02345''\<rparr>, \<lparr>Address = ''f03456''\<rparr>]\<rparr>), None)"
  using NewDBMgr_seeds_empty_registry_only [of "''sqlite''" "\<lambda>t p. (empty_DB, None)"
          "''estuary.db''" empty_DB "[''f01234'', ''f02345'', ''f03456'']"]
  by (simp add: NewDBMgr_def SplitN_eq_2_def NewDBMgr_seed_def gorm_Count_def gorm_Create_def
      engine_step_def empty_DB_def)

subsection \<open>Sweeping unreferenced objects\<close>

lemma DeleteUnreferenced_statement_rejected:
  "\<not> list_all (clause_accepted m) (cs @ [object_eq_objects_id, own_handle_eq_0_AND_id_in ids])"
  by simp





subsection \<open>Hard delete of contents\<close>

text \<open>
  Claim C4, as stated, fails: there is no in-use check. On the store where content 1
  has a deal and an object reference naming it, deleting the content with id 1 returns
  no error and removes the row, and the deal and the reference stay.
\<close>

theorem ContentsQuery_Delete_in_use_succeeds:
  "fst (ContentsQuery_Delete (ContentsQuery_WithID NewContentsQuery 1) in_use_DB) = None \<and>
   contents in_use_DB \<noteq> [] \<and>
   contents (snd (ContentsQuery_Delete (ContentsQuery_WithID NewContentsQuery 1) in_use_DB)) = [] \<and>
   content_deals (snd (ContentsQuery_Delete (ContentsQuery_WithID NewContentsQuery 1) in_use_DB))
     = [\<lparr>contentDeal_ID = 1, contentDeal_Content = 1\<rparr>] \<and>
   obj_refs (snd (ContentsQuery_Delete (ContentsQuery_WithID NewContentsQuery 1) in_use_DB))
     = [\<lparr>ObjRef_ID = 1, ObjRef_Object = 2, ObjRef_Pin = 1\<rparr>]"
  by (simp add: ContentsQuery_Delete_def gorm_Delete_def engine_step_def contents_match_def
      ContentsQuery_WithID_def NewContentsQuery_def contents_add_Where_def
      in_use_DB_def empty_DB_def)

text \<open>
  Claim C4, amended. When the engine reports no error for the statement: the hard
  delete of contents under at least one filter returns no error and removes exactly
  the contents that satisfy the filters, whether or not a deal or an object reference
  names them, and leaves deals and references as they are; and deleting the object
  references of a pin returns no error and removes exactly the references of that pin,
  leaving the contents as they are. So the hard delete succeeds after the deals and
  references of a content are cleared, as it does before.
\<close>

theorem ContentsQuery_Delete_has_no_guard:
  assumes "fst (engine_step db) = None"
  shows "(contents_Where q \<noteq> [] \<longrightarrow>
            fst (ContentsQuery_Delete q db) = None \<and>
            contents (snd (ContentsQuery_Delete q db))
              = filter (\<lambda>c. \<not> contents_match q c) (contents db) \<and>
            content_deals (snd (ContentsQuery_Delete q db)) = content_deals db \<and>
            obj_refs (snd (ContentsQuery_Delete q db)) = obj_refs db) \<and>
         fst (ObjRefsQuery_Delete (ObjRefsQuery_WithPinID NewObjRefsQuery pinID) db) = None \<and>
         obj_refs (snd (ObjRefsQuery_Delete (ObjRefsQuery_WithPinID NewObjRefsQuery pinID) db))
           = filter (\<lambda>r. ObjRef_Pin r \<noteq> pinID) (obj_refs db) \<and>
         contents (snd (ObjRefsQuery_Delete (ObjRefsQuery_WithPinID NewObjRefsQuery pinID) db))
           = contents db"
proof -
  obtain db' where step: "engine_step db = (None, db')"
    using assms by (cases "engine_step db") simp
  then have same: "obj_refs db' = obj_refs db" "content_deals db' = content_deals db"
      "contents db' = contents db"
    by (auto simp: engine_step_def split: list.splits)
  have pin: "obj_refs_match (ObjRefsQuery_WithPinID NewObjRefsQuery pinID)
      = (\<lambda>r. ObjRef_Pin r = pinID)"
    by (rule ext) (simp add: obj_refs_match_def ObjRefsQuery_WithPinID_def NewObjRefsQuery_def)
  have "ObjRefsQuery_WithPinID NewObjRefsQuery pinID \<noteq> []"
    by (simp add: ObjRefsQuery_WithPinID_def)
  then show ?thesis
    using step same
    by (simp add: ContentsQuery_Delete_def ObjRefsQuery_Delete_def gorm_Delete_def pin)
qed

text \<open>
  Claim C4, amended, on stores: clearing the references of pin 1 empties the table of
  references, and the hard delete of content 1 succeeds on the cleared store.
\<close>

theorem ContentsQuery_Delete_has_no_guard_witness:
  "fst (engine_step in_use_DB) = None \<and>
   fst (ObjRefsQuery_Delete (ObjRefsQuery_WithPinID NewObjRefsQuery 1) in_use_DB) = None \<and>
   obj_refs (snd (ObjRefsQuery_Delete (ObjRefsQuery_WithPinID NewObjRefsQuery 1) in_use_DB)) = [] \<and>
   fst (engine_step cleared_DB) = None \<and>
   contents_Where (ContentsQuery_WithID NewContentsQuery 1) \<noteq> [] \<and>
   fst (ContentsQuery_Delete (ContentsQuery_WithID NewContentsQuery 1) cleared_DB) = None \<and>
   contents (snd (ContentsQuery_Delete (ContentsQuery_WithID NewContentsQuery 1) cleared_DB)) = []"
  using ContentsQuery_Delete_has_no_guard [of in_use_DB "ContentsQuery_WithID NewContentsQuery 1" 1]
        ContentsQuery_Delete_has_no_guard [of cleared_DB "ContentsQuery_WithID NewContentsQuery 1" 1]
  by (simp add: engine_step_def contents_match_def ContentsQuery_WithID_def NewContentsQuery_def
      contents_add_Where_def cleared_DB_def in_use_DB_def empty_DB_def)

end
